theory Spec2Isabelle
  imports Main
begin

section \<open>The Ruby runtime and the network core, as far as the bridge sees them\<close>

text \<open>
  The bridge of \<^verbatim>\<open>ext/core\<close> sits between a reactor (\<^verbatim>\<open>lib-server\<close>) and the
  Ruby runtime. Both are outside the two source files; the model keeps of them what the C
  code reads and writes: Ruby values and their instance variables, the string buffers the
  read helper fills, the reactor's per-descriptor user data, its task queue, its settings,
  the pending-exception slot, and a trace of everything that leaves the bridge (method
  invocations, diagnostic output, reactor requests).
\<close>

type_synonym fd = int

text \<open>The interned identifiers of \<^verbatim>\<open>core.c\<close> (the \<^verbatim>\<open>static ID\<close> variables and the
  \<^verbatim>\<open>rb_intern\<close> literals of \<^verbatim>\<open>srv_start\<close>).\<close>

datatype ID =
    server_var_id | fd_var_id | buff_var_id
  | call_proc_id | new_func_id
  | on_open_func_id | on_data_func_id | on_message_func_id
  | on_shutdown_func_id | on_close_func_id | ping_func_id
  | at_protocol | at_port | at_address | at_timeout | at_threads | at_processes | at_busy_msg

text \<open>
  A \<^verbatim>\<open>VALUE\<close>. \<open>Qfalse\<close> is the machine word 0, which is also the null pointer the
  reactor keeps as absent user data. Strings are references into a store, because the read
  helper changes a buffer in place. An exception carries the name of its class and its
  \<^verbatim>\<open>mesg\<close> attribute. \<open>Exception c m\<close> is what \<^verbatim>\<open>rb_raise\<close> and a \<^verbatim>\<open>raise\<close> with a
  message build: the attribute is a String of its own with the bytes \<open>m\<close>.
  \<open>Exception_with c v\<close> has the value \<open>v\<close> as its attribute, whatever it is:
  \<^verbatim>\<open>Exception#initialize\<close> stores its argument unchanged, \<open>nil\<close> when there is none
  (\<^verbatim>\<open>raise Klass\<close>). There is one server: \<open>ServerObject\<close> is the Ruby object that
  wraps the pointer to it, and the reactor's state is part of the one state below.
\<close>

datatype VALUE =
    Qfalse | Qnil
  | Fixnum int
  | Str nat
  | Class nat
  | Object nat
  | Proc nat
  | ServerObject
  | Exception string string
  | Exception_with string VALUE

datatype ruby_type = T_FALSE | T_NIL | T_FIXNUM | T_STRING | T_CLASS | T_OBJECT | T_DATA

text \<open>The \<^verbatim>\<open>TYPE\<close> macro.\<close>

fun TYPE_of :: "VALUE \<Rightarrow> ruby_type" where
  "TYPE_of Qfalse = T_FALSE"
| "TYPE_of Qnil = T_NIL"
| "TYPE_of (Fixnum n) = T_FIXNUM"
| "TYPE_of (Str i) = T_STRING"
| "TYPE_of (Class c) = T_CLASS"
| "TYPE_of (Object i) = T_OBJECT"
| "TYPE_of (Proc i) = T_DATA"
| "TYPE_of ServerObject = T_DATA"
| "TYPE_of (Exception c m) = T_OBJECT"
| "TYPE_of (Exception_with c v) = T_OBJECT"

text \<open>\<^verbatim>\<open>FIX2INT\<close> reads a Fixnum. Where \<^verbatim>\<open>int\<close> is narrower than \<^verbatim>\<open>long\<close> the
  macro is \<^verbatim>\<open>rb_fix2int\<close>, which converts any other value and raises when it cannot;
  the functions below that receive an object bound to a connection read a Fixnum, and
  \<^verbatim>\<open>srv_read\<close>, which is modelled on every receiver, tests for \<open>nil\<close> before it
  uses the function.\<close>

fun FIX2INT :: "VALUE \<Rightarrow> int" where
  "FIX2INT (Fixnum n) = n"
| "FIX2INT v = undefined"

text \<open>A Ruby string: its bytes (as many as its length), the capacity of its buffer, and
  whether it is frozen.\<close>

record RString =
  bytes :: string
  capa :: nat
  frozen :: bool

text \<open>What the socket of a descriptor will hand to the next reads: data that has arrived,
  or a failing read (\<open>Fail k\<close> makes the read return \<open>- 1 - k\<close>).\<close>

datatype segment = Data string | Fail nat

datatype scope = Global | Bound fd

text \<open>The settings \<^verbatim>\<open>srv_start\<close> hands to \<^verbatim>\<open>Server.listen\<close>. The port is kept as the
  number that \<^verbatim>\<open>snprintf\<close> prints (absent for the null pointer), the texts as values.\<close>

record ServerSettings =
  s_timeout :: int
  s_threads :: int
  s_processes :: int
  s_port :: "int option"
  s_address :: "string option"
  s_busy_msg :: "string option"

text \<open>What leaves the bridge. \<open>Wild_read v\<close> records that \<^verbatim>\<open>RSTRING_LEN\<close> and
  \<^verbatim>\<open>RSTRING_PTR\<close> were applied to \<open>v\<close>, which is not a String: the macros read the
  word behind a pointer that is none, and what the C program does from there on is not
  defined.\<close>

datatype event =
    Invoked VALUE ID "string list"
  | Stderr string
  | Backtrace
  | Wild_read VALUE
  | Warn string
  | Included VALUE
  | Srv_close fd
  | Srv_touch fd
  | Listen ServerSettings

record world =
  udata :: "fd \<Rightarrow> VALUE"
  registry :: "VALUE set"
  ivars :: "VALUE \<Rightarrow> ID \<Rightarrow> VALUE"
  strings :: "nat \<Rightarrow> RString"
  next_string :: nat
  incoming :: "fd \<Rightarrow> segment list"
  busy :: "fd \<Rightarrow> bool"
  threads :: int
  tasks :: "(scope \<times> VALUE) list"
  errinfo :: VALUE
  trace :: "event list"

text \<open>
  Running a method either returns a value or raises an exception: \<open>Raises c m\<close> one of
  class \<open>c\<close> whose \<^verbatim>\<open>mesg\<close> is a String with the bytes \<open>m\<close>, \<open>Raises_with c v\<close>
  one whose \<^verbatim>\<open>mesg\<close> is the value \<open>v\<close>. A C function that Ruby can call, or that
  calls into Ruby outside \<^verbatim>\<open>rb_protect\<close>, has such an outcome too: \<^verbatim>\<open>rb_raise\<close> and a
  raising callee leave it by a long jump.
\<close>

datatype outcome = Returns VALUE | Raises string string | Raises_with string VALUE

text \<open>
  The Ruby program served. A method of an object resolves either to the C function that
  \<^verbatim>\<open>Init_core\<close> registers on the \<^verbatim>\<open>Protocol\<close> module, or to some Ruby-level body. A
  body is opaque: its outcome may depend on the whole state, and it may rewrite, resize or
  freeze any String it can reach, so it yields the string store it leaves behind. The
  variables the bridge sets on an object have names Ruby code cannot spell. What a body
  does to a connection it does through the helper methods, which are operations of this
  model of their own; the section on methods that call back into the module takes up
  bodies that call them.
\<close>

datatype impl = Protocol_module | Ruby_body "world \<Rightarrow> outcome \<times> (nat \<Rightarrow> RString)"

record program =
  method_impl :: "VALUE \<Rightarrow> ID \<Rightarrow> impl"
  obj_class :: "VALUE \<Rightarrow> VALUE"

definition emit :: "event \<Rightarrow> world \<Rightarrow> world" where
  "emit e w = w\<lparr>trace := trace w @ [e]\<rparr>"

definition rb_ivar_get :: "VALUE \<Rightarrow> ID \<Rightarrow> world \<Rightarrow> VALUE" where
  "rb_ivar_get obj name w = ivars w obj name"

definition rb_ivar_set :: "VALUE \<Rightarrow> ID \<Rightarrow> VALUE \<Rightarrow> world \<Rightarrow> world" where
  "rb_ivar_set obj name v w = w\<lparr>ivars := (ivars w)(obj := (ivars w obj)(name := v))\<rparr>"

definition rb_include_module :: "VALUE \<Rightarrow> world \<Rightarrow> world" where
  "rb_include_module klass w = emit (Included klass) w"

subsection \<open>Strings\<close>

definition RSTRING_LEN :: "world \<Rightarrow> nat \<Rightarrow> nat" where
  "RSTRING_LEN w i = length (bytes (strings w i))"

definition rb_str_capacity :: "world \<Rightarrow> nat \<Rightarrow> nat" where
  "rb_str_capacity w i = capa (strings w i)"

text \<open>\<^verbatim>\<open>rb_str_buf_new\<close>: a fresh empty string with the capacity asked for.\<close>

definition rb_str_buf_new :: "nat \<Rightarrow> world \<Rightarrow> nat \<times> world" where
  "rb_str_buf_new n w =
     (next_string w,
      w\<lparr>strings := (strings w)(next_string w := \<lparr>bytes = [], capa = n, frozen = False\<rparr>),
        next_string := Suc (next_string w)\<rparr>)"

definition OBJ_FROZEN :: "world \<Rightarrow> nat \<Rightarrow> bool" where
  "OBJ_FROZEN w i = frozen (strings w i)"

text \<open>\<^verbatim>\<open>rb_str_resize\<close> of a string that is not frozen to a length above the capacity:
  the buffer is reallocated to that length, the new bytes are whatever the allocator left
  (written as zero bytes here; the read helper sets the length again before anyone reads
  them).\<close>

definition rb_str_resize :: "nat \<Rightarrow> nat \<Rightarrow> world \<Rightarrow> world" where
  "rb_str_resize i n w =
     w\<lparr>strings := (strings w)(i := (strings w i)
          \<lparr>bytes := take n (bytes (strings w i) @ replicate n (CHR 0x00)), capa := n\<rparr>)\<rparr>"

subsection \<open>The reactor\<close>

text \<open>Modelled from the spec: \<^verbatim>\<open>Server.read(fd, buffer, max_len) -> bytes_read_or_error\<close>
  of the network core, which is not part of the two source files. A read takes at most
  \<open>max_len\<close> bytes from the front of what has arrived, returns 0 when nothing has, and a
  negative number for a failing read.\<close>

fun sock_read :: "nat \<Rightarrow> segment list \<Rightarrow> (int \<times> string) \<times> segment list" where
  "sock_read len [] = ((0, []), [])"
| "sock_read len (Fail k # q) = ((- 1 - int k, []), q)"
| "sock_read len (Data d # q) =
     ((int (length (take len d)), take len d),
      (if drop len d = [] then q else Data (drop len d) # q))"

definition Server_read :: "fd \<Rightarrow> nat \<Rightarrow> world \<Rightarrow> (int \<times> string) \<times> world" where
  "Server_read fd len w =
     (let (r, q) = sock_read len (incoming w fd)
      in (r, w\<lparr>incoming := (incoming w)(fd := q)\<rparr>))"

text \<open>Modelled from the spec: the other reactor calls the bridge makes. \<^verbatim>\<open>close\<close> and
  \<^verbatim>\<open>touch\<close> are requests to the reactor and are recorded; \<^verbatim>\<open>set_udata\<close> and
  \<^verbatim>\<open>get_udata\<close> write and read the per-descriptor slot; \<^verbatim>\<open>is_busy\<close> reads the reactor's
  flag; \<^verbatim>\<open>run_async\<close> and \<^verbatim>\<open>fd_task\<close> append to the task queue.\<close>

definition Server_close :: "fd \<Rightarrow> world \<Rightarrow> world" where
  "Server_close fd w = emit (Srv_close fd) w"

definition Server_touch :: "fd \<Rightarrow> world \<Rightarrow> world" where
  "Server_touch fd w = emit (Srv_touch fd) w"

definition Server_get_udata :: "fd \<Rightarrow> world \<Rightarrow> VALUE" where
  "Server_get_udata fd w = udata w fd"

definition Server_set_udata :: "fd \<Rightarrow> VALUE \<Rightarrow> world \<Rightarrow> world" where
  "Server_set_udata fd v w = w\<lparr>udata := (udata w)(fd := v)\<rparr>"

definition Server_is_busy :: "fd \<Rightarrow> world \<Rightarrow> bool" where
  "Server_is_busy fd w = busy w fd"

definition Server_run_async :: "VALUE \<Rightarrow> world \<Rightarrow> world" where
  "Server_run_async task w = w\<lparr>tasks := tasks w @ [(Global, task)]\<rparr>"

definition Server_fd_task :: "fd \<Rightarrow> VALUE \<Rightarrow> world \<Rightarrow> world" where
  "Server_fd_task fd task w = w\<lparr>tasks := tasks w @ [(Bound fd, task)]\<rparr>"

text \<open>Modelled from the spec: the Object Registry (\<^verbatim>\<open>rb-registry.h\<close>), "a process-wide
  associative set that keeps a hard reference to any runtime object the core hands to
  reactor threads", with \<^verbatim>\<open>add\<close> and \<^verbatim>\<open>remove\<close>.\<close>

definition Registry_add :: "VALUE \<Rightarrow> world \<Rightarrow> world" where
  "Registry_add v w = w\<lparr>registry := insert v (registry w)\<rparr>"

definition Registry_remove :: "VALUE \<Rightarrow> world \<Rightarrow> world" where
  "Registry_remove v w = w\<lparr>registry := registry w - {v}\<rparr>"

section \<open>The read helper and the default callbacks (\<^verbatim>\<open>core.c\<close>)\<close>

fun FIX2LONG :: "VALUE \<Rightarrow> int" where
  "FIX2LONG (Fixnum n) = n"
| "FIX2LONG v = undefined"

text \<open>The string a \<^verbatim>\<open>VALUE\<close> of type \<^verbatim>\<open>T_STRING\<close> points to.\<close>

fun RSTRING :: "VALUE \<Rightarrow> nat" where
  "RSTRING (Str i) = i"
| "RSTRING v = undefined"

text \<open>\<^verbatim>\<open>rb_str_set_len\<close> after the reactor has written \<open>buf\<close> at the start of the
  string's buffer: the string now consists of the first \<open>n\<close> bytes of the buffer.\<close>

definition rb_str_set_len :: "nat \<Rightarrow> nat \<Rightarrow> string \<Rightarrow> world \<Rightarrow> world" where
  "rb_str_set_len i n buf w =
     w\<lparr>strings := (strings w)(i := (strings w i)\<lparr>bytes := take n buf\<rparr>)\<rparr>"

text \<open>What a string shows once the reactor has written \<open>buf\<close> at the start of its
  buffer and its length has stayed as it was.\<close>

definition overwritten :: "nat \<Rightarrow> string \<Rightarrow> world \<Rightarrow> world" where
  "overwritten i buf w =
     w\<lparr>strings := (strings w)(i := (strings w i)
          \<lparr>bytes := take (length (bytes (strings w i)))
                      (buf @ drop (length buf) (bytes (strings w i)))\<rparr>)\<rparr>"

text \<open>The messages of the two errors \<^verbatim>\<open>srv_read\<close> raises itself, and of the two that the
  runtime functions it calls raise: \<^verbatim>\<open>rb_fix2int\<close> on \<open>nil\<close>, and
  \<^verbatim>\<open>rb_error_frozen\<close> (a \<^verbatim>\<open>RuntimeError\<close>, of its subclass \<^verbatim>\<open>FrozenError\<close> in later
  versions of the runtime).\<close>

definition read_argc_message :: string where
  "read_argc_message =
     ''read accepts only one argument - a Fixnum (buffer length) or a String '' @
     ''(it's capacity - or 1Kb, whichever's the higher - will be used as '' @
     ''buffer's length).''"

definition read_type_message :: string where
  "read_type_message =
     ''buffer should either be a length (a new string will be created) '' @
     ''or a string (reading will be limited to the original string's '' @
     ''capacity or 1Kb - whichever the larger).''"

definition nil_to_integer_message :: string where
  "nil_to_integer_message = ''no implicit conversion from nil to integer''"

definition frozen_message :: string where
  "frozen_message = ''can't modify frozen String''"

text \<open>\<^verbatim>\<open>srv_read\<close> (lines 220-269), the \<^verbatim>\<open>read\<close> method of a protocol object. The
  descriptor is read with \<^verbatim>\<open>FIX2INT\<close> from a variable that is \<open>nil\<close> on an object
  never bound to a connection. A frozen String makes \<^verbatim>\<open>rb_str_resize\<close> raise, before
  anything is read, and otherwise \<^verbatim>\<open>rb_enc_associate_index\<close>, after the reactor has
  written into its buffer. The encoding itself is not represented.\<close>

definition srv_read :: "VALUE list \<Rightarrow> VALUE \<Rightarrow> world \<Rightarrow> outcome \<times> world" where
  "srv_read argv self w =
     (if length argv > 1 then
        (Raises ''ArgumentError'' read_argc_message, w)
      else
        let buffer = (if length argv = 1 then hd argv else Qnil) in
        if buffer \<noteq> Qnil \<and> TYPE_of buffer \<noteq> T_FIXNUM \<and> TYPE_of buffer \<noteq> T_STRING then
          (Raises ''TypeError'' read_type_message, w)
        else if rb_ivar_get self fd_var_id w = Qnil then
          (Raises ''TypeError'' nil_to_integer_message, w)
        else
          let fd = FIX2INT (rb_ivar_get self fd_var_id w);
              buffer = (if buffer = Qnil then Fixnum 1024 else buffer)
          in
          if TYPE_of buffer \<noteq> T_FIXNUM \<and> rb_str_capacity w (RSTRING buffer) < 1024 \<and>
             OBJ_FROZEN w (RSTRING buffer) then
            (Raises ''RuntimeError'' frozen_message, w)
          else
            let (str, len, w1) =
                  (if TYPE_of buffer = T_FIXNUM then
                     let len = FIX2LONG buffer;
                         len = (if len \<le> 0 then 1024 else len);
                         (s, w') = rb_str_buf_new (nat len) w
                     in (s, len, w')
                   else
                     let len = int (rb_str_capacity w (RSTRING buffer))
                     in if len < 1024
                        then (RSTRING buffer, 1024, rb_str_resize (RSTRING buffer) 1024 w)
                        else (RSTRING buffer, len, w));
                ((nread, buf), w2) = Server_read fd (nat len) w1
            in
            if OBJ_FROZEN w2 str then
              (Raises ''RuntimeError'' frozen_message, overwritten str buf w2)
            else
              let w3 = (if nread > 0 then rb_str_set_len str (nat nread) buf w2
                        else rb_str_set_len str 0 buf w2)
              in (Returns (Str str), w3))"

definition empty_func :: "VALUE \<Rightarrow> world \<Rightarrow> outcome \<times> world" where
  "empty_func self w = (Returns Qnil, w)"

definition def_on_message :: "VALUE \<Rightarrow> VALUE \<Rightarrow> world \<Rightarrow> outcome \<times> world" where
  "def_on_message self data w = (Returns Qnil, w)"

text \<open>The contents of a string argument at the time of a call, for the trace.\<close>

fun snapshot :: "world \<Rightarrow> VALUE \<Rightarrow> string" where
  "snapshot w (Str i) = bytes (strings w i)"
| "snapshot w v = []"

text \<open>\<^verbatim>\<open>rb_funcall\<close> with one argument (line 358). Of the methods the module defines
  only \<^verbatim>\<open>on_message\<close> takes one. The argument is handed over as it is, not a copy: a
  body that changes it changes the caller's string.\<close>

definition rb_funcall_1 :: "program \<Rightarrow> VALUE \<Rightarrow> ID \<Rightarrow> VALUE \<Rightarrow> world \<Rightarrow> outcome \<times> world" where
  "rb_funcall_1 P obj m arg w =
     (let w1 = emit (Invoked obj m [snapshot w arg]) w
      in case method_impl P obj m of
           Ruby_body body \<Rightarrow> (fst (body w), w1\<lparr>strings := snd (body w)\<rparr>)
         | Protocol_module \<Rightarrow>
             (if m = on_message_func_id then def_on_message obj arg w1
              else (Raises ''ArgumentError'' ''wrong number of arguments'', w1)))"

text \<open>The bytes still to come on a queue; they bound the loop of \<^verbatim>\<open>def_on_data\<close>.\<close>

fun pending :: "segment list \<Rightarrow> nat" where
  "pending [] = 0"
| "pending (Data d # q) = length d + pending q"
| "pending (Fail k # q) = pending q"

text \<open>The \<^verbatim>\<open>do ... while\<close> loop of \<^verbatim>\<open>def_on_data\<close> (lines 354-359) on the buffer
  \<open>Str i\<close>.\<close>

function def_on_data_loop :: "program \<Rightarrow> VALUE \<Rightarrow> nat \<Rightarrow> world \<Rightarrow> outcome \<times> world" where
  "def_on_data_loop P self i w =
     (case srv_read [Str i] self w of
        (Raises c m, w1) \<Rightarrow> (Raises c m, w1)
      | (Raises_with c x, w1) \<Rightarrow> (Raises_with c x, w1)
      | (Returns v, w1) \<Rightarrow>
          if RSTRING_LEN w1 i = 0 then (Returns Qnil, w1)
          else
            (case rb_funcall_1 P self on_message_func_id (Str i) w1 of
               (Raises c m, w2) \<Rightarrow> (Raises c m, w2)
             | (Raises_with c x, w2) \<Rightarrow> (Raises_with c x, w2)
             | (Returns v', w2) \<Rightarrow>
                 if RSTRING_LEN w2 i = rb_str_capacity w2 i
                 then def_on_data_loop P self i w2
                 else (Returns Qnil, w2)))"
  by pat_completeness auto
termination
proof (relation "measure (\<lambda>(P, self, i, w). pending (incoming w (FIX2INT (ivars w self fd_var_id))))",
       goal_cases)
  case 1
  show ?case by simp
next
  case (2 P self i w x y v v' w2)
  have rd: "0 < fst (fst (sock_read n q)) \<Longrightarrow> pending (snd (sock_read n q)) < pending q"
    for n q
    by (cases "(n, q)" rule: sock_read.cases) (auto split: if_splits)
  have fr: "incoming (snd (rb_funcall_1 P self m a u)) = incoming u \<and>
            ivars (snd (rb_funcall_1 P self m a u)) = ivars u" for m a u
    by (simp add: rb_funcall_1_def Let_def emit_def def_on_message_def split: impl.splits)
  have sr: "ivars w1 = ivars w \<and>
            pending (incoming w1 (FIX2INT (ivars w self fd_var_id)))
              < pending (incoming w (FIX2INT (ivars w self fd_var_id)))"
    if "srv_read [Str i] self w = (Returns v, w1)" "RSTRING_LEN w1 i \<noteq> 0" for w1
    using that rd [of "nat (int (capa (strings w i)))" "incoming w (FIX2INT (ivars w self fd_var_id))"]
      rd [of 1024 "incoming w (FIX2INT (ivars w self fd_var_id))"]
    by (auto simp: srv_read_def Let_def Server_read_def rb_ivar_get_def rb_str_set_len_def
        rb_str_resize_def rb_str_capacity_def RSTRING_LEN_def split: prod.splits if_splits)
  from 2 have a: "srv_read [Str i] self w = (Returns v, y)" and b: "RSTRING_LEN y i \<noteq> 0"
    by simp_all
  from 2 obtain r where "rb_funcall_1 P self on_message_func_id (Str i) y = (r, w2)"
    by metis
  then have c: "w2 = snd (rb_funcall_1 P self on_message_func_id (Str i) y)"
    by simp
  show ?case
    using sr [OF a b] fr [of on_message_func_id "Str i" y]
    by (simp add: c)
qed

declare def_on_data_loop.simps [simp del]

text \<open>\<^verbatim>\<open>def_on_data\<close> (lines 349-361): the buffer is created on first use and kept in
  an instance variable of the protocol object. Only this function writes the variable, so
  it holds \<open>nil\<close> or a string.\<close>

definition def_on_data :: "program \<Rightarrow> VALUE \<Rightarrow> world \<Rightarrow> outcome \<times> world" where
  "def_on_data P self w =
     (let buff = rb_ivar_get self buff_var_id w;
          (buff, w1) =
            (if buff = Qnil then
               let (s, w') = rb_str_buf_new 1024 w
               in (Str s, rb_ivar_set self buff_var_id (Str s) w')
             else (buff, w))
      in def_on_data_loop P self (RSTRING buff) w1)"

text \<open>\<^verbatim>\<open>no_ping_func\<close> (lines 338-347), the default \<^verbatim>\<open>ping\<close>.\<close>

definition no_ping_func :: "VALUE \<Rightarrow> world \<Rightarrow> outcome \<times> world" where
  "no_ping_func self w =
     (let fd = FIX2INT (rb_ivar_get self fd_var_id w)
      in (Returns Qnil,
          if \<not> Server_is_busy fd w then Server_close fd w else Server_touch fd w))"

text \<open>\<^verbatim>\<open>rb_funcall\<close> with no argument: the invocation is recorded, then the method runs.
  The table of \<^verbatim>\<open>Init_core\<close> (lines 606-611) says which C function stands behind a
  method of the module; the module defines neither \<^verbatim>\<open>new\<close> nor \<^verbatim>\<open>call\<close>, and its
  \<^verbatim>\<open>on_message\<close> wants an argument.\<close>

definition rb_funcall :: "program \<Rightarrow> VALUE \<Rightarrow> ID \<Rightarrow> world \<Rightarrow> outcome \<times> world" where
  "rb_funcall P obj m w =
     (let w1 = emit (Invoked obj m []) w
      in case method_impl P obj m of
           Ruby_body body \<Rightarrow> (fst (body w), w1\<lparr>strings := snd (body w)\<rparr>)
         | Protocol_module \<Rightarrow>
             (if m = on_open_func_id then empty_func obj w1
              else if m = on_data_func_id then def_on_data P obj w1
              else if m = ping_func_id then no_ping_func obj w1
              else if m = on_shutdown_func_id then empty_func obj w1
              else if m = on_close_func_id then empty_func obj w1
              else if m = on_message_func_id
                then (Raises ''ArgumentError'' ''wrong number of arguments'', w1)
              else (Raises ''NoMethodError'' ''undefined method'', w1)))"

section \<open>The call gateway (\<^verbatim>\<open>rb-call.c\<close>)\<close>

text \<open>\<^verbatim>\<open>rb_protect\<close>: a raise inside the protected function ends there; the exception
  becomes the pending error, the state is non-zero (6, the tag of a raise) and the result
  is \<open>Qnil\<close>.\<close>

definition rb_protect ::
  "(world \<Rightarrow> outcome \<times> world) \<Rightarrow> world \<Rightarrow> (VALUE \<times> int) \<times> world" where
  "rb_protect func w =
     (case func w of
        (Returns v, w1) \<Rightarrow> ((v, 0), w1)
      | (Raises c m, w1) \<Rightarrow> ((Qnil, 6), w1\<lparr>errinfo := Exception c m\<rparr>)
      | (Raises_with c x, w1) \<Rightarrow> ((Qnil, 6), w1\<lparr>errinfo := Exception_with c x\<rparr>))"

text \<open>The name of the class of an exception.\<close>

fun rb_class_name :: "VALUE \<Rightarrow> string" where
  "rb_class_name (Exception c m) = c"
| "rb_class_name (Exception_with c v) = c"
| "rb_class_name v = undefined"

text \<open>The \<^verbatim>\<open>mesg\<close> attribute of an exception as \<^verbatim>\<open>RSTRING_LEN\<close> and \<^verbatim>\<open>RSTRING_PTR\<close> find
  it: the bytes of a String, or a value that is no String.\<close>

fun mesg :: "world \<Rightarrow> VALUE \<Rightarrow> VALUE + string" where
  "mesg w (Exception c m) = Inr m"
| "mesg w (Exception_with c (Str i)) = Inr (bytes (strings w i))"
| "mesg w (Exception_with c v) = Inl v"
| "mesg w v = undefined"

text \<open>What \<^verbatim>\<open>fprintf\<close> prints for \<^verbatim>\<open>%.*s\<close> when the precision is the length of the
  text: the bytes before the first zero byte.\<close>

definition printed :: "string \<Rightarrow> string" where
  "printed s = takeWhile (\<lambda>c. c \<noteq> CHR 0x00) s"

text \<open>\<^verbatim>\<open>handle_exception\<close> (lines 16-27). It applies the string macros to the
  \<^verbatim>\<open>mesg\<close> attribute without looking at its type; on a value that is no String the
  model records the read and goes no further.\<close>

definition handle_exception :: "world \<Rightarrow> VALUE \<times> world" where
  "handle_exception w =
     (let exc = errinfo w
      in if exc \<noteq> Qnil then
           (case mesg w exc of
              Inl v \<Rightarrow> (exc, emit (Wild_read v) w)
            | Inr msg \<Rightarrow>
                let exc_class = rb_class_name exc;
                    w1 = emit (Stderr (printed exc_class @ '': '' @ printed msg @ [CHR 0x0A])) w;
                    w2 = emit Backtrace w1
                in (exc, w2\<lparr>errinfo := Qnil\<rparr>))
         else (exc, w))"

definition run_ruby_method_unsafe :: "program \<Rightarrow> VALUE \<Rightarrow> ID \<Rightarrow> world \<Rightarrow> outcome \<times> world" where
  "run_ruby_method_unsafe P obj m w = rb_funcall P obj m w"

definition run_ruby_method_within_gvl :: "program \<Rightarrow> VALUE \<Rightarrow> ID \<Rightarrow> world \<Rightarrow> VALUE \<times> world" where
  "run_ruby_method_within_gvl P obj m w =
     (let ((returned, state), w1) = rb_protect (run_ruby_method_unsafe P obj m) w;
          w2 = (if state \<noteq> 0 then snd (handle_exception w1) else w1)
      in (returned, w2))"

text \<open>\<^verbatim>\<open>call\<close> enters the runtime with \<^verbatim>\<open>rb_thread_call_with_gvl\<close>; which thread holds
  the lock is not represented, the function passed runs.\<close>

definition call :: "program \<Rightarrow> VALUE \<Rightarrow> ID \<Rightarrow> world \<Rightarrow> VALUE \<times> world" where
  "call P obj m w = run_ruby_method_within_gvl P obj m w"

definition call_unsafe :: "program \<Rightarrow> VALUE \<Rightarrow> ID \<Rightarrow> world \<Rightarrow> VALUE \<times> world" where
  "call_unsafe P obj m w =
     (let ((returned, state), w1) = rb_protect (run_ruby_method_unsafe P obj m) w;
          w2 = (if state \<noteq> 0 then snd (handle_exception w1) else w1)
      in (returned, w2))"

section \<open>Tasks, upgrade and the reactor's callbacks (\<^verbatim>\<open>core.c\<close>)\<close>



text \<open>\<^verbatim>\<open>rb_yield\<close> runs the block of the current method call; the block is the same object
  that \<^verbatim>\<open>rb_block_proc\<close> returns, and running it is recorded as its \<^verbatim>\<open>call\<close>.\<close>

definition rb_yield :: "program \<Rightarrow> VALUE \<Rightarrow> world \<Rightarrow> outcome \<times> world" where
  "rb_yield P block w = rb_funcall P block call_proc_id w"

definition non_async_warning :: string where
  "non_async_warning =
     ''called an async method in a non-async mode - the task will be performed immediately.''"

text \<open>\<^verbatim>\<open>run_async\<close> (lines 183-202), the \<^verbatim>\<open>run\<close> method, and \<^verbatim>\<open>run_protocol_task\<close>
  (lines 160-180), the \<^verbatim>\<open>defer\<close> method. The block of the call is an argument here;
  \<^verbatim>\<open>rb_need_block\<close> raises when there is none.\<close>

definition run_async :: "program \<Rightarrow> VALUE \<Rightarrow> VALUE option \<Rightarrow> world \<Rightarrow> outcome \<times> world" where
  "run_async P self blk w =
     (case blk of
        None \<Rightarrow> (Raises ''LocalJumpError'' ''no block given (yield)'', w)
      | Some b \<Rightarrow>
          (case (if threads w < 0
                 then rb_yield P b
                        (emit (Warn non_async_warning) w)
                 else (Returns Qnil, w)) of
             (Raises c m, w1) \<Rightarrow> (Raises c m, w1)
           | (Raises_with c x, w1) \<Rightarrow> (Raises_with c x, w1)
           | (Returns y, w1) \<Rightarrow>
               let block = b
               in if block = Qnil then (Returns Qnil, w1)
                  else (Returns block, Server_run_async block (Registry_add block w1))))"

definition run_protocol_task :: "program \<Rightarrow> VALUE \<Rightarrow> VALUE option \<Rightarrow> world \<Rightarrow> outcome \<times> world" where
  "run_protocol_task P self blk w =
     (case blk of
        None \<Rightarrow> (Raises ''LocalJumpError'' ''no block given (yield)'', w)
      | Some b \<Rightarrow>
          (case (if threads w < 0
                 then rb_yield P b
                        (emit (Warn non_async_warning) w)
                 else (Returns Qnil, w)) of
             (Raises c m, w1) \<Rightarrow> (Raises c m, w1)
           | (Raises_with c x, w1) \<Rightarrow> (Raises_with c x, w1)
           | (Returns y, w1) \<Rightarrow>
               let block = b
               in if block = Qnil then (Returns Qnil, w1)
                  else (Returns block,
                        Server_fd_task (FIX2INT (rb_ivar_get self fd_var_id w1)) block
                          (Registry_add block w1))))"

definition rb_obj_class :: "program \<Rightarrow> VALUE \<Rightarrow> VALUE" where
  "rb_obj_class P v = obj_class P v"


text \<open>The five callbacks the reactor is given (lines 364-426). The protocol class is kept
  in the user-data slot of descriptor 0 (\<^verbatim>\<open>on_init\<close>).\<close>

definition on_open :: "program \<Rightarrow> fd \<Rightarrow> world \<Rightarrow> world" where
  "on_open P fd w =
     (let protocol = Server_get_udata 0 w;
          (protocol, w1) = call P protocol new_func_id w
      in if protocol = Qnil then Server_close fd w1
         else
           let w2 = Registry_add protocol w1;
               w3 = rb_ivar_set protocol fd_var_id (Fixnum fd) w2;
               w4 = rb_ivar_set protocol server_var_id ServerObject w3;
               w5 = Server_set_udata fd protocol w4
           in snd (call P protocol on_open_func_id w5))"

definition on_data :: "program \<Rightarrow> fd \<Rightarrow> world \<Rightarrow> world" where
  "on_data P fd w =
     (let protocol = Server_get_udata fd w
      in if protocol = Qfalse then w
         else snd (call P protocol on_data_func_id w))"

definition ping :: "program \<Rightarrow> fd \<Rightarrow> world \<Rightarrow> world" where
  "ping P fd w =
     (let protocol = Server_get_udata fd w
      in if protocol = Qfalse then w
         else snd (call P protocol ping_func_id w))"

definition on_shutdown :: "program \<Rightarrow> fd \<Rightarrow> world \<Rightarrow> world" where
  "on_shutdown P fd w =
     (let protocol = Server_get_udata fd w
      in if protocol = Qfalse then w
         else snd (call P protocol on_shutdown_func_id w))"


section \<open>Starting the server\<close>

text \<open>\<^verbatim>\<open>srv_start_no_gvl\<close> (lines 457-463): the call to \<^verbatim>\<open>Server.listen\<close> is recorded
  with the settings it receives. What the reactor returns, on which only a \<^verbatim>\<open>perror\<close>
  depends, is not represented.\<close>

definition srv_start_no_gvl :: "ServerSettings \<Rightarrow> world \<Rightarrow> world" where
  "srv_start_no_gvl settings w = emit (Listen settings) w"

text \<open>\<^verbatim>\<open>srv_start\<close> (lines 471-560). The checks are written with the operators of the
  source.\<close>

definition srv_start :: "VALUE \<Rightarrow> world \<Rightarrow> outcome \<times> world" where
  "srv_start self w =
     (let rb_protocol = rb_ivar_get self at_protocol w;
          rb_port = rb_ivar_get self at_port w;
          rb_bind = rb_ivar_get self at_address w;
          rb_timeout = rb_ivar_get self at_timeout w;
          rb_threads = rb_ivar_get self at_threads w;
          rb_processes = rb_ivar_get self at_processes w;
          rb_busymsg = rb_ivar_get self at_busy_msg w
      in
      if TYPE_of rb_protocol \<noteq> T_CLASS then
        (Raises ''TypeError'' ''protocol isn't a valid object (should be a class).'', w)
      else if rb_port \<noteq> Qnil \<and> TYPE_of rb_port \<noteq> T_FIXNUM then
        (Raises ''TypeError'' ''port isn't a valid number.'', w)
      else
        let iport = (if rb_port = Qnil then 3000 else FIX2INT rb_port) in
        if iport > 65535 \<or> iport < 0 then
          (Raises ''TypeError'' ''port out of range.'', w)
        else if rb_bind \<noteq> Qnil \<and> TYPE_of rb_bind \<noteq> T_STRING then
          (Raises ''TypeError'' ''bind should be either a String or nil.'', w)
        else
          let w1 = (if rb_bind \<noteq> Qnil
                    then emit (Warn ''the `bind` property is ignored, unimplemented yet'') w
                    else w) in
          if rb_timeout \<noteq> Qnil \<and>
             (TYPE_of rb_timeout \<noteq> T_FIXNUM \<or> FIX2INT rb_timeout > 255 \<or> FIX2INT rb_timeout < 0)
          then
            (Raises ''TypeError'' ''timeout isn't a valid number (any number from 0 to 255).'', w1)
          else if rb_processes \<noteq> Qnil \<and> TYPE_of rb_processes \<noteq> T_FIXNUM \<and>
                  FIX2INT rb_processes > 32 then
            (Raises ''TypeError'' ''processes isn't a valid number (1-32).'', w1)
          else if rb_threads \<noteq> Qnil \<and> TYPE_of rb_threads \<noteq> T_FIXNUM \<and>
                  FIX2INT rb_threads > 128 then
            (Raises ''TypeError'' ''threads isn't a valid number (-1 to 128).'', w1)
          else if rb_busymsg \<noteq> Qnil \<and> TYPE_of rb_busymsg \<noteq> T_STRING then
            (Raises ''TypeError'' ''busy_msg should be either a String or nil.'', w1)
          else
            let bind = (if rb_bind = Qnil then None else Some (snapshot w1 rb_bind));
                timeout = (if rb_timeout = Qnil then 10 else FIX2INT rb_timeout);
                w2 = (if TYPE_of rb_protocol = T_CLASS
                      then rb_include_module rb_protocol w1 else w1);
                settings = \<lparr>s_timeout = timeout,
                            s_threads = (if rb_threads = Qnil then 0 else FIX2INT rb_threads),
                            s_processes =
                              (if rb_processes = Qnil then 0 else FIX2INT rb_processes),
                            s_port = (if iport > 0 then Some iport else None),
                            s_address = bind,
                            s_busy_msg =
                              (if rb_busymsg = Qnil then None
                               else Some (snapshot w2 rb_busymsg))\<rparr>
            in (Returns Qnil, srv_start_no_gvl settings w2))"

section \<open>The value an upgrade binds\<close>


section \<open>Methods that call back into the module\<close>













section \<open>The registered objects and the native references\<close>

text \<open>The connections that hold an object (descriptor 0 carries the protocol class and is
  no connection; \<open>Qfalse\<close> is the null pointer, a slot that holds it holds nothing), the
  callables of the tasks in the reactor's queue, and the values held by either.\<close>

definition slots :: "world \<Rightarrow> fd set" where
  "slots w = {fd. fd \<noteq> 0 \<and> udata w fd \<noteq> Qfalse}"

definition callables :: "world \<Rightarrow> VALUE list" where
  "callables w = filter (\<lambda>v. v \<noteq> Qfalse) (map snd (tasks w))"

definition held :: "world \<Rightarrow> VALUE set" where
  "held w = udata w ` slots w \<union> set (callables w)"

text \<open>The two invariants of the specification. Membership: a value is registered iff a
  connection or a task holds it. Size: the registry has as many members as there are
  connections and tasks, that is, no value is held twice (\<open>registry_size\<close> below gives the
  equation for finitely many connections).\<close>

definition registry_inv :: "world \<Rightarrow> bool" where
  "registry_inv w \<longleftrightarrow>
     registry w - {Qfalse} = held w \<and>
     inj_on (udata w) (slots w) \<and> distinct (callables w) \<and>
     udata w ` slots w \<inter> set (callables w) = {}"







section \<open>The default \<^verbatim>\<open>on_data\<close>, in the words of the specification\<close>





section \<open>States and programs to run the definitions on\<close>

definition boot :: world where
  "boot = \<lparr>udata = (\<lambda>fd. Qfalse), registry = {}, ivars = (\<lambda>obj name. Qnil),
            strings = (\<lambda>i. \<lparr>bytes = [], capa = 0, frozen = False\<rparr>), next_string = 0,
            incoming = (\<lambda>fd. []), busy = (\<lambda>fd. False), threads = 1, tasks = [],
            errinfo = Qnil, trace = []\<rparr>"

text \<open>A program whose every method raises.\<close>

definition raising_program :: program where
  "raising_program =
     \<lparr>method_impl = (\<lambda>obj m. Ruby_body (\<lambda>w. (Raises ''RuntimeError'' ''boom'', strings w))),
      obj_class = (\<lambda>obj. Class 0)\<rparr>"

text \<open>A program that overrides nothing: the constructor of class \<open>n\<close> returns object
  \<open>n\<close>, a block returns \<open>nil\<close>, every callback is the module's.\<close>

definition plain_program :: program where
  "plain_program =
     \<lparr>method_impl = (\<lambda>obj m.
         if m = new_func_id
           then Ruby_body (\<lambda>w. (case obj of Class n \<Rightarrow> Returns (Object n) | _ \<Rightarrow> Returns Qnil,
                                  strings w))
         else if m = call_proc_id then Ruby_body (\<lambda>w. (Returns Qnil, strings w))
         else Protocol_module),
      obj_class = (\<lambda>obj. Class 0)\<rparr>"

text \<open>A program whose protocol objects define \<^verbatim>\<open>ping\<close> themselves, doing nothing.\<close>

definition own_ping_program :: program where
  "own_ping_program =
     \<lparr>method_impl = (\<lambda>obj m.
         if m = ping_func_id then Ruby_body (\<lambda>w. (Returns Qnil, strings w))
         else Protocol_module),
      obj_class = (\<lambda>obj. Class 0)\<rparr>"

text \<open>A server that has started with class \<open>n\<close> as its protocol and has no connection
  yet.\<close>

definition serving :: "nat \<Rightarrow> world" where
  "serving n = boot\<lparr>udata := (udata boot)(0 := Class n)\<rparr>"

text \<open>A connection on descriptor 5 of a server of class 7, opened and bound to object 7.\<close>

definition connected :: world where
  "connected = on_open plain_program 5 (serving 7)"

text \<open>The same server configured for non-concurrent operation.\<close>

definition single_worker :: world where
  "single_worker = connected\<lparr>threads := - 1\<rparr>"

text \<open>A server object configured with 500 threads and 100 processes.\<close>

definition oversized :: world where
  "oversized = boot\<lparr>ivars := (ivars boot)(Object 0 := (ivars boot (Object 0))
                 (at_protocol := Class 7, at_threads := Fixnum 500, at_processes := Fixnum 100))\<rparr>"











text \<open>A program whose every method raises an error that has no message
  (\<^verbatim>\<open>raise ArgumentError\<close>), and one whose message has a zero byte in it.\<close>

definition bare_raise_program :: program where
  "bare_raise_program =
     \<lparr>method_impl = (\<lambda>obj m. Ruby_body (\<lambda>w. (Raises_with ''ArgumentError'' Qnil, strings w))),
      obj_class = (\<lambda>obj. Class 0)\<rparr>"

definition nul_message_program :: program where
  "nul_message_program =
     \<lparr>method_impl = (\<lambda>obj m. Ruby_body (\<lambda>w.
         (Raises ''RuntimeError'' [CHR ''a'', CHR 0x00, CHR ''b''], strings w))),
      obj_class = (\<lambda>obj. Class 0)\<rparr>"


text \<open>Five bytes have arrived, and the read after them fails.\<close>

definition greeting :: world where
  "greeting = connected\<lparr>incoming := (incoming connected)(5 := [Data ''hello'', Fail 0])\<rparr>"

text \<open>The same connection, and a frozen string literal to read into.\<close>

definition frozen_literal :: world where
  "frozen_literal =
     greeting\<lparr>strings := (strings greeting)(0 := \<lparr>bytes = ''abc'', capa = 23, frozen = True\<rparr>),
              next_string := 1\<rparr>"

section \<open>Reading a trace, comparing states\<close>

text \<open>\<open>untouched w w'\<close>: the reactor's bookkeeping and the registry are the same in both
  states; \<open>kept w w'\<close>: the user data, the registry and the task queue are. \<open>invocations\<close> lists the method calls of a trace, \<open>since w w'\<close> is what
  \<open>w'\<close> has recorded after \<open>w\<close>, and a \<open>diagnostic\<close> event is one of the
  exception handler.\<close>

definition untouched :: "world \<Rightarrow> world \<Rightarrow> bool" where
  "untouched w w' \<longleftrightarrow>
     udata w' = udata w \<and> registry w' = registry w \<and> tasks w' = tasks w \<and>
     busy w' = busy w \<and> threads w' = threads w"

definition kept :: "world \<Rightarrow> world \<Rightarrow> bool" where
  "kept w w' \<longleftrightarrow> udata w' = udata w \<and> registry w' = registry w \<and> tasks w' = tasks w"


definition since :: "world \<Rightarrow> world \<Rightarrow> event list" where
  "since w w' = drop (length (trace w)) (trace w')"

fun diagnostic :: "event \<Rightarrow> bool" where
  "diagnostic (Stderr s) = True"
| "diagnostic Backtrace = True"
| "diagnostic (Wild_read v) = True"
| "diagnostic e = False"

section \<open>Auxiliary facts\<close>

subsection \<open>What the read loop and a method call leave alone\<close>

lemma untouched_refl: "untouched w w"
  by (simp add: untouched_def)

lemma untouched_trans: "untouched w w1 \<Longrightarrow> untouched w1 w2 \<Longrightarrow> untouched w w2"
  by (simp add: untouched_def)

lemma untouched_emit: "untouched w (emit e w)"
  by (simp add: untouched_def emit_def)

lemma srv_read_untouched: "untouched w (snd (srv_read argv self w))"
  by (simp add: untouched_def srv_read_def Let_def Server_read_def rb_str_buf_new_def
      rb_str_resize_def rb_str_set_len_def overwritten_def split: prod.splits)

lemma srv_read_ivars: "ivars (snd (srv_read argv self w)) = ivars w"
  by (simp add: srv_read_def Let_def Server_read_def rb_str_buf_new_def
      rb_str_resize_def rb_str_set_len_def overwritten_def split: prod.splits)

lemma srv_read_trace: "trace (snd (srv_read argv self w)) = trace w"
  by (simp add: srv_read_def Let_def Server_read_def rb_str_buf_new_def
      rb_str_resize_def rb_str_set_len_def overwritten_def split: prod.splits)

lemma rb_funcall_1_untouched: "untouched w (snd (rb_funcall_1 P obj m arg w))"
  by (simp add: untouched_def rb_funcall_1_def Let_def emit_def def_on_message_def
      split: impl.splits)

lemma rb_funcall_1_ivars: "ivars (snd (rb_funcall_1 P obj m arg w)) = ivars w"
  by (simp add: rb_funcall_1_def Let_def emit_def def_on_message_def split: impl.splits)

lemma def_on_data_loop_untouched:
  "untouched w (snd (def_on_data_loop P self i w)) \<and>
   ivars (snd (def_on_data_loop P self i w)) = ivars w"
proof (induction P self i w rule: def_on_data_loop.induct)
  case (1 P self i w)
  obtain r1 w1 where rd: "srv_read [Str i] self w = (r1, w1)"
    by (cases "srv_read [Str i] self w")
  have u1: "untouched w w1" and i1: "ivars w1 = ivars w"
    using srv_read_untouched [of w "[Str i]" self] srv_read_ivars [of "[Str i]" self w]
    by (simp_all add: rd)
  obtain r2 w2 where cb: "rb_funcall_1 P self on_message_func_id (Str i) w1 = (r2, w2)"
    by (cases "rb_funcall_1 P self on_message_func_id (Str i) w1")
  have u2: "untouched w1 w2" and i2: "ivars w2 = ivars w1"
    using rb_funcall_1_untouched [of w1 P self on_message_func_id "Str i"]
      rb_funcall_1_ivars [of P self on_message_func_id "Str i" w1]
    by (simp_all add: cb)
  show ?case
  proof (cases r1)
    case (Raises c m)
    then show ?thesis
      using u1 i1 by (subst def_on_data_loop.simps, simp add: rd)+
  next
    case (Raises_with c x)
    then show ?thesis
      using u1 i1 by (subst def_on_data_loop.simps, simp add: rd)+
  next
    case (Returns v)
    note r1 = this
    show ?thesis
    proof (cases "RSTRING_LEN w1 i = 0")
      case True
      then show ?thesis
        using u1 i1 r1 by (subst def_on_data_loop.simps, simp add: rd)+
    next
      case False
      note len = this
      show ?thesis
      proof (cases r2)
        case (Raises c m)
        then show ?thesis
          using u1 i1 u2 i2 r1 len untouched_trans [OF u1 u2]
          by (subst def_on_data_loop.simps, simp add: rd cb)+
      next
        case (Raises_with c x)
        then show ?thesis
          using u1 i1 u2 i2 r1 len untouched_trans [OF u1 u2]
          by (subst def_on_data_loop.simps, simp add: rd cb)+
      next
        case (Returns v')
        note r2 = this
        show ?thesis
        proof (cases "RSTRING_LEN w2 i = rb_str_capacity w2 i")
          case True
          have ih: "untouched w2 (snd (def_on_data_loop P self i w2)) \<and>
                    ivars (snd (def_on_data_loop P self i w2)) = ivars w2"
            using "1.IH" [OF rd [symmetric] r1 len cb [symmetric] r2 True]
            by simp
          show ?thesis
            using ih i1 i2 untouched_trans [OF untouched_trans [OF u1 u2]] r1 r2 len True
            by (subst def_on_data_loop.simps, simp add: rd cb)+
        next
          case False
          then show ?thesis
            using u1 i1 u2 i2 r1 r2 len untouched_trans [OF u1 u2]
            by (subst def_on_data_loop.simps, simp add: rd cb)+
        qed
      qed
    qed
  qed
qed

subsection \<open>The gateway on the plain callbacks\<close>



lemma call_eq_call_unsafe: "call P obj m w = call_unsafe P obj m w"
  by (simp add: call_def call_unsafe_def run_ruby_method_within_gvl_def)


lemma call_unsafe_returns:
  "rb_funcall P obj m w = (Returns v, w1) \<Longrightarrow> call_unsafe P obj m w = (v, w1)"
  by (simp add: call_unsafe_def run_ruby_method_unsafe_def rb_protect_def Let_def)

lemma call_unsafe_raises:
  "rb_funcall P obj m w = (Raises c msg, w1) \<Longrightarrow>
   call_unsafe P obj m w =
     (Qnil, w1\<lparr>errinfo := Qnil,
               trace := trace w1 @ [Stderr (printed c @ '': '' @ printed msg @ [CHR 0x0A]),
                                    Backtrace]\<rparr>)"
  by (simp add: call_unsafe_def run_ruby_method_unsafe_def rb_protect_def
      handle_exception_def emit_def Let_def)

lemma call_unsafe_raises_with:
  assumes "rb_funcall P obj m w = (Raises_with c x, w1)"
  shows "\<exists>es ei. es \<noteq> [] \<and> (\<forall>e \<in> set es. diagnostic e) \<and>
           call_unsafe P obj m w = (Qnil, w1\<lparr>errinfo := ei, trace := trace w1 @ es\<rparr>)"
proof (cases "\<exists>i. x = Str i")
  case True
  then obtain i where "x = Str i"
    by blast
  with assms show ?thesis
    by (intro exI [of _ "[Stderr (printed c @ '': '' @ printed (bytes (strings w1 i)) @ [CHR 0x0A]),
                          Backtrace]"] exI [of _ Qnil])
       (simp add: call_unsafe_def run_ruby_method_unsafe_def rb_protect_def
          handle_exception_def emit_def Let_def)
next
  case False
  then have "mesg u (Exception_with c x) = Inl x" for u
    by (cases x) simp_all
  with assms show ?thesis
    by (intro exI [of _ "[Wild_read x]"] exI [of _ "Exception_with c x"])
       (simp add: call_unsafe_def run_ruby_method_unsafe_def rb_protect_def
          handle_exception_def emit_def Let_def)
qed

lemma call_unsafe_result:
  assumes "rb_funcall P obj m w = (r, w1)"
  shows "\<exists>es ei. (\<forall>e \<in> set es. diagnostic e) \<and>
           (fst (call_unsafe P obj m w) \<noteq> Qnil \<longrightarrow> es = []) \<and>
           snd (call_unsafe P obj m w) = w1\<lparr>errinfo := ei, trace := trace w1 @ es\<rparr>"
proof (cases r)
  case (Returns v)
  with assms show ?thesis
    by (intro exI [of _ "[]"] exI [of _ "errinfo w1"]) (simp add: call_unsafe_returns)
next
  case (Raises c msg)
  with assms show ?thesis
    by (intro exI [of _ "[Stderr (printed c @ '': '' @ printed msg @ [CHR 0x0A]), Backtrace]"]
          exI [of _ Qnil])
       (simp add: call_unsafe_raises)
next
  case (Raises_with c x)
  with assms obtain es ei where "\<forall>e \<in> set es. diagnostic e"
    and "call_unsafe P obj m w = (Qnil, w1\<lparr>errinfo := ei, trace := trace w1 @ es\<rparr>)"
    using call_unsafe_raises_with [of P obj m w c x w1] by blast
  then show ?thesis
    by (intro exI [of _ es] exI [of _ ei]) simp
qed


subsection \<open>Unfolding the model on a concrete state\<close>

lemmas run_defs =
  boot_def serving_def plain_program_def raising_program_def own_ping_program_def
  rb_funcall_def rb_funcall_1_def call_def call_unsafe_def run_ruby_method_within_gvl_def
  run_ruby_method_unsafe_def rb_protect_def handle_exception_def printed_def emit_def
  empty_func_def def_on_message_def no_ping_func_def
  rb_ivar_get_def rb_ivar_set_def rb_include_module_def rb_obj_class_def rb_yield_def
  Server_close_def Server_touch_def Server_get_udata_def Server_set_udata_def
  Server_is_busy_def Server_run_async_def Server_fd_task_def
  Registry_add_def Registry_remove_def since_def Let_def

subsection \<open>Upgrade\<close>





lemma connected_eq:
  "connected =
     boot\<lparr>udata := (udata boot)(0 := Class 7, 5 := Object 7),
          registry := {Object 7},
          ivars := (ivars boot)(Object 7 := (ivars boot (Object 7))
                      (fd_var_id := Fixnum 5, server_var_id := ServerObject)),
          trace := [Invoked (Class 7) new_func_id [], Invoked (Object 7) on_open_func_id []]\<rparr>"
  by (simp add: connected_def on_open_def run_defs)

subsection \<open>The read loop against the loop of the specification\<close>

lemma sock_read_length:
  "sock_read len q = ((n, d), q') \<Longrightarrow> 0 < n \<Longrightarrow>
   length d = nat n \<and> take (nat n) d = d \<and> length d \<le> len"
  by (cases "(len, q)" rule: sock_read.cases) auto





subsection \<open>What a method call through the gateway leaves alone\<close>

lemma def_on_data_untouched: "untouched w (snd (def_on_data P self w))"
proof (cases "rb_ivar_get self buff_var_id w = Qnil")
  case True
  define w1 where "w1 = rb_ivar_set self buff_var_id (Str (next_string w))
                          (snd (rb_str_buf_new 1024 w))"
  have "untouched w w1"
    by (simp add: w1_def untouched_def rb_ivar_set_def rb_str_buf_new_def)
  moreover have "untouched w1 (snd (def_on_data_loop P self (next_string w) w1))"
    using def_on_data_loop_untouched by blast
  moreover have "def_on_data P self w = def_on_data_loop P self (next_string w) w1"
    using True by (simp add: def_on_data_def Let_def rb_str_buf_new_def w1_def)
  ultimately show ?thesis
    using untouched_trans by simp
next
  case False
  then have "def_on_data P self w =
               def_on_data_loop P self (RSTRING (rb_ivar_get self buff_var_id w)) w"
    by (simp add: def_on_data_def Let_def)
  then show ?thesis
    using def_on_data_loop_untouched by simp
qed

lemma rb_funcall_untouched: "untouched w (snd (rb_funcall P obj m w))"
proof -
  define w1 where "w1 = emit (Invoked obj m []) w"
  have e: "untouched w w1"
    unfolding w1_def by (rule untouched_emit)
  show ?thesis
  proof (cases "method_impl P obj m")
    case (Ruby_body body)
    then show ?thesis
      by (simp add: rb_funcall_def Let_def untouched_def emit_def)
  next
    case Protocol_module
    have "untouched w1 (snd (def_on_data P obj w1))"
      by (rule def_on_data_untouched)
    moreover have "untouched w1 (snd (no_ping_func obj w1))"
      by (simp add: no_ping_func_def Let_def Server_close_def Server_touch_def untouched_emit)
    moreover have "untouched w1 (snd (empty_func obj w1))"
      by (simp add: empty_func_def untouched_refl)
    ultimately have "untouched w1 (snd (rb_funcall P obj m w))"
      using Protocol_module
      by (simp add: rb_funcall_def Let_def w1_def [symmetric] untouched_refl)
    with e show ?thesis
      by (rule untouched_trans)
  qed
qed

lemma call_unsafe_untouched: "untouched w (snd (call_unsafe P obj m w))"
proof -
  obtain r w1 where f: "rb_funcall P obj m w = (r, w1)"
    by (cases "rb_funcall P obj m w")
  then have "untouched w w1"
    using rb_funcall_untouched [of w P obj m] by simp
  with call_unsafe_result [OF f] show ?thesis
    by (auto simp: untouched_def)
qed

lemma call_untouched: "untouched w (snd (call P obj m w))"
  by (simp add: call_eq_call_unsafe call_unsafe_untouched)

subsection \<open>The gateway and the hand-offs without effects\<close>





subsection \<open>The registry invariant, operation by operation\<close>


lemma kept_trans: "kept w w1 \<Longrightarrow> kept w1 w2 \<Longrightarrow> kept w w2"
  by (simp add: kept_def)



















lemma registry_size:
  assumes "registry_inv w" "finite (slots w)"
  shows "card (registry w - {Qfalse}) = card (slots w) + length (callables w)"
proof -
  have "card (held w) = card (udata w ` slots w) + card (set (callables w))"
    unfolding held_def using assms
    by (intro card_Un_disjoint) (simp_all add: registry_inv_def)
  also have "card (udata w ` slots w) = card (slots w)"
    using assms(1) by (intro card_image) (simp add: registry_inv_def)
  also have "card (set (callables w)) = length (callables w)"
    using assms(1) by (intro distinct_card) (simp add: registry_inv_def)
  finally show ?thesis
    using assms(1) by (simp add: registry_inv_def)
qed

subsection \<open>Evaluations\<close>














section \<open>The claims\<close>

text \<open>
  C1. The handler of the gateway reads the \<^verbatim>\<open>mesg\<close> attribute of the error with the
  string macros, whatever the attribute is. After \<^verbatim>\<open>raise ArgumentError\<close> it is \<open>nil\<close>:
  \<^verbatim>\<open>call\<close> and \<^verbatim>\<open>call_unsafe\<close> apply the macros to \<open>nil\<close>, print nothing of the form
  "ClassName: message" and no backtrace, and leave the error pending. Of a message with
  a zero byte in it, what is printed ends before that byte.
\<close>

theorem gateway_reads_message_unchecked:
  "call_unsafe bare_raise_program (Object 1) on_open_func_id boot =
     (Qnil, boot\<lparr>trace := [Invoked (Object 1) on_open_func_id [], Wild_read Qnil],
                 errinfo := Exception_with ''ArgumentError'' Qnil\<rparr>)
   \<and> call bare_raise_program (Object 1) on_open_func_id boot =
     (Qnil, boot\<lparr>trace := [Invoked (Object 1) on_open_func_id [], Wild_read Qnil],
                 errinfo := Exception_with ''ArgumentError'' Qnil\<rparr>)
   \<and> call_unsafe nul_message_program (Object 1) on_open_func_id boot =
     (Qnil, boot\<lparr>trace := [Invoked (Object 1) on_open_func_id [],
                             Stderr (''RuntimeError: a'' @ [CHR 0x0A]), Backtrace]\<rparr>)"
  by (simp add: run_defs bare_raise_program_def nul_message_program_def)













text \<open>
  C7, as amended. For a connection whose bound object does not define \<^verbatim>\<open>ping\<close> itself, a
  ping event invokes \<^verbatim>\<open>ping\<close> on the object and then asks the reactor for exactly one
  thing: to close the connection when it is not busy, to reset its idle timer when it is.
\<close>

theorem default_ping_closes_idle:
  assumes "udata w fd = obj" "obj \<noteq> Qfalse"
    and "rb_ivar_get obj fd_var_id w = Fixnum fd"
    and "method_impl P obj ping_func_id = Protocol_module"
  shows "since w (ping P fd w) =
           [Invoked obj ping_func_id [], if Server_is_busy fd w then Srv_touch fd else Srv_close fd]"
  using assms
  by (simp add: ping_def call_def run_ruby_method_within_gvl_def run_ruby_method_unsafe_def
      rb_protect_def rb_funcall_def no_ping_func_def Server_get_udata_def Server_is_busy_def
      Server_close_def Server_touch_def rb_ivar_get_def emit_def since_def Let_def)

theorem default_ping_closes_idle_witness:
  "udata connected 5 = Object 7 \<and> Object 7 \<noteq> Qfalse \<and>
   rb_ivar_get (Object 7) fd_var_id connected = Fixnum 5 \<and>
   method_impl plain_program (Object 7) ping_func_id = Protocol_module \<and>
   since connected (ping plain_program 5 connected) =
     [Invoked (Object 7) ping_func_id [], Srv_close 5] \<and>
   since (connected\<lparr>busy := (busy connected)(5 := True)\<rparr>)
         (ping plain_program 5 (connected\<lparr>busy := (busy connected)(5 := True)\<rparr>)) =
     [Invoked (Object 7) ping_func_id [], Srv_touch 5]"
proof -
  have a: "udata connected 5 = Object 7" "Object 7 \<noteq> Qfalse"
    "rb_ivar_get (Object 7) fd_var_id connected = Fixnum 5"
    "method_impl plain_program (Object 7) ping_func_id = Protocol_module"
    by (simp_all add: connected_eq boot_def rb_ivar_get_def plain_program_def)
  have b: "udata (connected\<lparr>busy := (busy connected)(5 := True)\<rparr>) 5 = Object 7"
    "rb_ivar_get (Object 7) fd_var_id (connected\<lparr>busy := (busy connected)(5 := True)\<rparr>)
       = Fixnum 5"
    by (simp_all add: connected_eq boot_def rb_ivar_get_def)
  show ?thesis
    using default_ping_closes_idle [OF a]
      default_ping_closes_idle [OF b(1) a(2) b(2) a(4)] a
    by (simp add: Server_is_busy_def connected_eq boot_def)
qed

text \<open>
  C7 as stated fails: the object bound to an idle connection may define \<^verbatim>\<open>ping\<close> itself;
  the ping event then runs that method and the connection is not closed.
\<close>

theorem own_ping_keeps_idle_connection:
  "udata connected 5 = Object 7 \<and> \<not> Server_is_busy 5 connected \<and>
   since connected (ping own_ping_program 5 connected) = [Invoked (Object 7) ping_func_id []] \<and>
   Srv_close 5 \<notin> set (since connected (ping own_ping_program 5 connected))"
  by (simp add: connected_eq ping_def run_defs)

text \<open>
  C8. In non-concurrent mode (\<open>threads = -1\<close>) \<^verbatim>\<open>run\<close> and \<^verbatim>\<open>defer\<close> warn and run the
  block at once; the code then goes on to register the block and to put it on the
  reactor's task queue all the same.
\<close>

theorem run_in_single_worker_mode_also_queues:
  "run_async plain_program (Object 7) (Some (Proc 1)) single_worker =
     (Returns (Proc 1),
      single_worker\<lparr>trace := trace single_worker @
                       [Warn non_async_warning,
                        Invoked (Proc 1) call_proc_id []],
                    registry := insert (Proc 1) (registry single_worker),
                    tasks := [(Global, Proc 1)]\<rparr>)
   \<and> run_protocol_task plain_program (Object 7) (Some (Proc 1)) single_worker =
     (Returns (Proc 1),
      single_worker\<lparr>trace := trace single_worker @
                       [Warn non_async_warning,
                        Invoked (Proc 1) call_proc_id []],
                    registry := insert (Proc 1) (registry single_worker),
                    tasks := [(Bound 5, Proc 1)]\<rparr>)"
  by (simp add: run_async_def run_protocol_task_def single_worker_def connected_eq run_defs)

text \<open>
  C9. \<^verbatim>\<open>srv_start\<close> on a server configured with 500 threads and 100 processes raises
  nothing and calls \<^verbatim>\<open>Server.listen\<close> with these counts.
\<close>

theorem start_accepts_oversized_counts:
  "srv_start (Object 0) oversized =
     (Returns Qnil,
      oversized\<lparr>trace := [Included (Class 7),
                           Listen \<lparr>s_timeout = 10, s_threads = 500, s_processes = 100,
                                   s_port = Some 3000, s_address = None,
                                   s_busy_msg = None\<rparr>]\<rparr>)"
  by (simp add: srv_start_def srv_start_no_gvl_def oversized_def run_defs)

theorem start_accepts_oversized_counts_witness:
  "fst (srv_start (Object 0) oversized) = Returns Qnil"
  using start_accepts_oversized_counts by simp

text \<open>
  C10, as amended. A call of \<^verbatim>\<open>read\<close> on an object bound to a connection, with no
  argument, \<open>nil\<close>, a Fixnum or a String that is not frozen, returns a string and raises
  nothing, whatever the reactor's read returns: the reactor is asked for a positive
  number of bytes; when it returns zero or a negative count the string is empty,
  otherwise the string holds the bytes read and its length is their number.
\<close>

theorem srv_read_returns_string:
  assumes "rb_ivar_get self fd_var_id w = Fixnum fd"
    and "argv = [] \<or> argv = [Qnil] \<or> (\<exists>n. argv = [Fixnum n]) \<or>
         (\<exists>i. argv = [Str i] \<and> \<not> OBJ_FROZEN w i)"
  shows "\<exists>s len. 0 < len \<and>
           (let r = sock_read len (incoming w fd);
                n = fst (fst r);
                w' = snd (srv_read argv self w)
            in fst (srv_read argv self w) = Returns (Str s) \<and>
               bytes (strings w' s) = (if 0 < n then snd (fst r) else []) \<and>
               RSTRING_LEN w' s = (if 0 < n then nat n else 0) \<and>
               incoming w' fd = snd r)"
proof -
  have len: "\<And>len n d q. sock_read len (incoming w fd) = ((n, d), q) \<Longrightarrow> 0 < n \<Longrightarrow>
     take (nat n) d = d \<and> length d = nat n"
    using sock_read_length by blast
  from assms(2) consider "argv = []" | "argv = [Qnil]" | n where "argv = [Fixnum n]" "n \<le> 0"
    | n where "argv = [Fixnum n]" "0 < n"
    | i where "argv = [Str i]" "capa (strings w i) < 1024" "\<not> frozen (strings w i)"
    | i where "argv = [Str i]" "\<not> capa (strings w i) < 1024" "\<not> frozen (strings w i)"
    by (fastforce simp: OBJ_FROZEN_def)
  then show ?thesis
  proof cases
    case 1
    show ?thesis
      apply (rule exI [of _ "next_string w"], rule exI [of _ 1024])
      using 1 len [of 1024] assms(1)
      by (auto simp: srv_read_def Let_def Server_read_def rb_str_buf_new_def rb_str_set_len_def
          RSTRING_LEN_def OBJ_FROZEN_def split: prod.splits)
  next
    case 2
    show ?thesis
      apply (rule exI [of _ "next_string w"], rule exI [of _ 1024])
      using 2 len [of 1024] assms(1)
      by (auto simp: srv_read_def Let_def Server_read_def rb_str_buf_new_def rb_str_set_len_def
          RSTRING_LEN_def OBJ_FROZEN_def split: prod.splits)
  next
    case 3
    show ?thesis
      apply (rule exI [of _ "next_string w"], rule exI [of _ 1024])
      using 3 len [of 1024] assms(1)
      by (auto simp: srv_read_def Let_def Server_read_def rb_str_buf_new_def rb_str_set_len_def
          RSTRING_LEN_def OBJ_FROZEN_def split: prod.splits)
  next
    case 4
    show ?thesis
      apply (rule exI [of _ "next_string w"], rule exI [of _ "nat n"])
      using 4 len [of "nat n"] assms(1)
      by (auto simp: srv_read_def Let_def Server_read_def rb_str_buf_new_def rb_str_set_len_def
          RSTRING_LEN_def OBJ_FROZEN_def split: prod.splits)
  next
    case 5
    show ?thesis
      apply (rule exI [of _ i], rule exI [of _ 1024])
      using 5 len [of 1024] assms(1)
      by (auto simp: srv_read_def Let_def Server_read_def rb_str_resize_def rb_str_set_len_def
          rb_str_capacity_def RSTRING_LEN_def OBJ_FROZEN_def split: prod.splits)
  next
    case 6
    show ?thesis
      apply (rule exI [of _ i], rule exI [of _ "capa (strings w i)"])
      using 6 len [of "capa (strings w i)"] assms(1)
      by (auto simp: srv_read_def Let_def Server_read_def rb_str_resize_def rb_str_set_len_def
          rb_str_capacity_def RSTRING_LEN_def OBJ_FROZEN_def split: prod.splits)
  qed
qed

theorem srv_read_returns_string_witness:
  "rb_ivar_get (Object 7) fd_var_id greeting = Fixnum 5 \<and>
   srv_read [] (Object 7) greeting =
     (Returns (Str 0),
      greeting\<lparr>strings := (strings greeting)(0 := \<lparr>bytes = ''hello'', capa = 1024, frozen = False\<rparr>),
               next_string := 1,
               incoming := (incoming greeting)(5 := [Fail 0])\<rparr>)
   \<and> (\<exists>s. fst (srv_read [Qnil] (Object 7) greeting) = Returns (Str s))"
proof -
  have a: "rb_ivar_get (Object 7) fd_var_id greeting = Fixnum 5"
    by (simp add: greeting_def connected_eq boot_def rb_ivar_get_def)
  have "[Qnil] = [] \<or> [Qnil] = [Qnil] \<or> (\<exists>n. [Qnil] = [Fixnum n]) \<or>
        (\<exists>i. [Qnil] = [Str i] \<and> \<not> OBJ_FROZEN greeting i)"
    by simp
  from srv_read_returns_string [OF a this]
  have "\<exists>s. fst (srv_read [Qnil] (Object 7) greeting) = Returns (Str s)"
    by (auto simp: Let_def)
  moreover have "srv_read [] (Object 7) greeting =
     (Returns (Str 0),
      greeting\<lparr>strings := (strings greeting)(0 := \<lparr>bytes = ''hello'', capa = 1024, frozen = False\<rparr>),
               next_string := 1,
               incoming := (incoming greeting)(5 := [Fail 0])\<rparr>)"
    by (simp add: srv_read_def greeting_def connected_eq boot_def Server_read_def
        rb_str_buf_new_def rb_str_set_len_def rb_ivar_get_def OBJ_FROZEN_def Let_def)
  ultimately show ?thesis
    using a by simp
qed

text \<open>
  C10 as stated fails: a call of \<^verbatim>\<open>read\<close> returns no string but raises when it has two
  arguments, when its argument is neither \<open>nil\<close>, a Fixnum nor a String, when its argument
  is a frozen String, and when the receiver was never bound to a connection.
\<close>

theorem srv_read_raises:
  "srv_read [Fixnum 1, Fixnum 2] (Object 7) greeting =
     (Raises ''ArgumentError'' read_argc_message, greeting)
   \<and> srv_read [Object 1] (Object 7) greeting = (Raises ''TypeError'' read_type_message, greeting)
   \<and> srv_read [Str 0] (Object 7) frozen_literal =
       (Raises ''RuntimeError'' frozen_message, frozen_literal)
   \<and> srv_read [] (Object 9) greeting = (Raises ''TypeError'' nil_to_integer_message, greeting)"
  by (simp add: srv_read_def frozen_literal_def greeting_def connected_eq boot_def
      rb_ivar_get_def rb_str_capacity_def OBJ_FROZEN_def Let_def)

end
